theory Spec2Isabelle
  imports Main
begin

section \<open>Values decoded from a frame\<close>

text \<open>
  The message handler of \<^verbatim>\<open>src/index.ts\<close> works on what \<^verbatim>\<open>JSON.parse\<close> returns.
  A decoded value is one of the six JSON shapes. A number is kept as the text that
  JavaScript's number-to-string conversion gives for it (\<^verbatim>\<open>0\<close> and \<^verbatim>\<open>-0\<close> are
  both \<open>''0''\<close>): the handler only ever uses a number as a property key, compares it with
  \<^verbatim>\<open>0\<close>, or serialises it again. An object is the list of its own properties; a property
  read takes the first binding of the name. Of a string only its identity and whether it
  is empty are ever used. JavaScript's \<^verbatim>\<open>undefined\<close> is \<open>None\<close> of \<open>json option\<close>.
\<close>

datatype json =
    JNull
  | JBool bool
  | JNum string
  | JStr string
  | JArr "json list"
  | JObj "(string \<times> json) list"

datatype js_error = SyntaxError | TypeError | RangeError

text \<open>
  \<^verbatim>\<open>v.name\<close> for the names the handler reads by destructuring (\<^verbatim>\<open>event\<close>, \<^verbatim>\<open>data\<close>,
  \<^verbatim>\<open>roomId\<close>, \<^verbatim>\<open>username\<close>, \<^verbatim>\<open>strokes\<close>) on a value that is neither \<^verbatim>\<open>null\<close> nor
  \<^verbatim>\<open>undefined\<close>: only an object can own such a property; strings, arrays, numbers and
  booleans give \<^verbatim>\<open>undefined\<close>.
\<close>

fun get_prop :: "json \<Rightarrow> string \<Rightarrow> json option" where
  "get_prop (JObj kvs) name = map_of kvs name"
| "get_prop _ name = None"

text \<open>
  The right-hand side of a destructuring \<^verbatim>\<open>const { ... } = v\<close>: \<^verbatim>\<open>undefined\<close> and
  \<^verbatim>\<open>null\<close> throw a TypeError, any other value can be read.
\<close>

fun destructure :: "json option \<Rightarrow> js_error + json" where
  "destructure None = Inl TypeError"
| "destructure (Some JNull) = Inl TypeError"
| "destructure (Some v) = Inr v"

fun join_commas :: "string list \<Rightarrow> string" where
  "join_commas [] = []"
| "join_commas [s] = s"
| "join_commas (s # t # ts) = s @ '','' @ join_commas (t # ts)"

text \<open>
  The conversion of a value to a string, as \<^verbatim>\<open>rooms[roomId]\<close> applies it to its key.
  An object is converted by its \<^verbatim>\<open>toString\<close> method. A decoded object inherits the one
  that returns \<^verbatim>\<open>[object Object]\<close>, unless it owns a property of that name: a decoded
  value is never a function, the inherited \<^verbatim>\<open>valueOf\<close> returns the object itself, and
  the conversion throws a TypeError. An array is converted by \<^verbatim>\<open>join\<close>: its elements,
  converted in turn from left to right (\<^verbatim>\<open>null\<close> gives the empty string), with commas
  between them. Each array inside an array is one more nested call; \<open>n\<close> is the number
  of nested calls of \<^verbatim>\<open>join\<close> that the call stack still has room for, and a call
  beyond it throws a RangeError.
\<close>

fun first_error :: "('e + 'a) list \<Rightarrow> 'e + 'a list" where
  "first_error [] = Inr []"
| "first_error (Inl e # rest) = Inl e"
| "first_error (Inr x # rest) =
     (case first_error rest of Inl e \<Rightarrow> Inl e | Inr xs \<Rightarrow> Inr (x # xs))"

fun to_str :: "nat \<Rightarrow> json \<Rightarrow> js_error + string" where
  "to_str n JNull = Inr ''null''"
| "to_str n (JBool b) = Inr (if b then ''true'' else ''false'')"
| "to_str n (JNum s) = Inr s"
| "to_str n (JStr s) = Inr s"
| "to_str n (JObj kvs) =
     (if ''toString'' \<in> set (map fst kvs) then Inl TypeError else Inr ''[object Object]'')"
| "to_str n (JArr xs) =
     (if n = 0 then Inl RangeError
      else case first_error (map (\<lambda>x. if x = JNull then Inr [] else to_str (n - 1) x) xs) of
             Inl e \<Rightarrow> Inl e
           | Inr parts \<Rightarrow> Inr (join_commas parts))"

text \<open>The key of \<^verbatim>\<open>rooms[v]\<close>; \<^verbatim>\<open>undefined\<close> is the key \<^verbatim>\<open>undefined\<close>.\<close>

fun to_property_key :: "nat \<Rightarrow> json option \<Rightarrow> js_error + string" where
  "to_property_key n None = Inr ''undefined''"
| "to_property_key n (Some v) = to_str n v"

fun dec :: "nat \<Rightarrow> string" where
  "dec n = (if n < 10 then [char_of (48 + n)]
            else dec (n div 10) @ [char_of (48 + n mod 10)])"

declare dec.simps [simp del]

text \<open>
  \<^verbatim>\<open>const { roomId, ...drawData } = eventData\<close> (line 111): the rest object holds,
  as own properties, the own enumerable properties of \<^verbatim>\<open>eventData\<close> other than
  \<^verbatim>\<open>roomId\<close>. For an array or a string these are the index properties, for a number or
  a boolean there are none.
\<close>

fun rest_without_roomId :: "json \<Rightarrow> json" where
  "rest_without_roomId (JObj kvs) = JObj (filter (\<lambda>kv. fst kv \<noteq> ''roomId'') kvs)"
| "rest_without_roomId (JArr xs) = JObj (zip (map dec [0..<length xs]) xs)"
| "rest_without_roomId (JStr s) = JObj (zip (map dec [0..<length s]) (map (\<lambda>c. JStr [c]) s))"
| "rest_without_roomId _ = JObj []"

text \<open>
  \<^verbatim>\<open>drawData.strokes.length === 0\<close> (line 114). Reading \<^verbatim>\<open>length\<close> of \<^verbatim>\<open>undefined\<close>
  or \<^verbatim>\<open>null\<close> throws; a string or array has its length; an object has the property it
  owns under that name, if any; a number or boolean has none, and \<^verbatim>\<open>undefined === 0\<close>
  is false.
\<close>

fun length_is_zero :: "json option \<Rightarrow> js_error + bool" where
  "length_is_zero None = Inl TypeError"
| "length_is_zero (Some JNull) = Inl TypeError"
| "length_is_zero (Some (JStr s)) = Inr (length s = 0)"
| "length_is_zero (Some (JArr xs)) = Inr (length xs = 0)"
| "length_is_zero (Some (JObj kvs)) = Inr (map_of kvs ''length'' = Some (JNum ''0''))"
| "length_is_zero (Some _) = Inr False"

section \<open>The room table\<close>

text \<open>A WebSocket object is known by its identity only.\<close>

type_synonym socket = nat

text \<open>The value type of \<^verbatim>\<open>rooms\<close> (lines 21-30); \<^verbatim>\<open>startTime\<close> is in milliseconds.\<close>

record room =
  drawings :: "json list"
  history :: "json list list"
  redoStack :: "json list list"
  users :: "socket list"
  startTime :: int

type_synonym rooms = "string \<rightharpoonup> room"

text \<open>
  \<^verbatim>\<open>rooms\<close> is a plain object, so \<^verbatim>\<open>rooms[key]\<close> also finds what every object
  inherits from \<^verbatim>\<open>Object.prototype\<close>. Those values are truthy and have none of the
  fields of a room: \<^verbatim>\<open>users\<close>, \<^verbatim>\<open>drawings\<close>, \<^verbatim>\<open>history\<close> and \<^verbatim>\<open>redoStack\<close> read
  on one of them are \<^verbatim>\<open>undefined\<close>, and the \<^verbatim>\<open>push\<close> or \<^verbatim>\<open>length\<close> that follows
  throws a TypeError.
\<close>

definition object_prototype_keys :: "string list" where
  "object_prototype_keys =
     [''constructor'', ''__defineGetter__'', ''__defineSetter__'', ''hasOwnProperty'',
      ''__lookupGetter__'', ''__lookupSetter__'', ''isPrototypeOf'',
      ''propertyIsEnumerable'', ''toString'', ''valueOf'', ''__proto__'',
      ''toLocaleString'']"

datatype slot = Own room | Inherited | Absent

definition rooms_get :: "rooms \<Rightarrow> string \<Rightarrow> slot" where
  "rooms_get rooms key =
     (case rooms key of
        Some r \<Rightarrow> Own r
      | None \<Rightarrow> if key \<in> set object_prototype_keys then Inherited else Absent)"

text \<open>
  \<^verbatim>\<open>generateRoomId\<close> (lines 181-183). The argument is the text
  \<^verbatim>\<open>Math.random().toString(36)\<close>, which the function cuts with \<^verbatim>\<open>substring(2, 8)\<close>.
\<close>

definition generateRoomId :: "string \<Rightarrow> string" where
  "generateRoomId random36 = take 6 (drop 2 random36)"

text \<open>
  The handler of \<^verbatim>\<open>POST /create-room\<close> (lines 33-49), given the random text and
  \<^verbatim>\<open>Date.now()\<close>. It returns the table and the \<^verbatim>\<open>roomId\<close> of the response.
\<close>

definition create_room :: "string \<Rightarrow> int \<Rightarrow> rooms \<Rightarrow> rooms \<times> string" where
  "create_room random36 now rooms =
     (let roomId = generateRoomId random36
      in (rooms(roomId \<mapsto>
            \<lparr>drawings = [], history = [[]], redoStack = [], users = [], startTime = now\<rparr>),
          roomId))"

section \<open>Broadcast and the reaper check\<close>

text \<open>
  What is passed to \<^verbatim>\<open>JSON.stringify\<close> before a send: the envelope, by its event name.
  \<^verbatim>\<open>username\<close> may be \<^verbatim>\<open>undefined\<close>, in which case the key is left out.
\<close>

datatype outbound =
    UserJoined "json option"
  | DrawMsg json
  | UpdateCanvas "json list"

text \<open>
  What the handlers take from the JavaScript engine: the number of nested calls of
  \<^verbatim>\<open>join\<close> that fit on the call stack when a key is converted, and the envelopes for
  which \<^verbatim>\<open>JSON.stringify\<close> returns a string. For the others it throws a RangeError (the
  value is nested too deep for the call stack, or the text would be too long).
\<close>

record engine =
  join_depth :: nat
  serialises :: "outbound \<Rightarrow> bool"

definition stringify :: "engine \<Rightarrow> outbound \<Rightarrow> js_error + outbound" where
  "stringify eng message = (if serialises eng message then Inr message else Inl RangeError)"

text \<open>
  \<^verbatim>\<open>broadcast\<close> (lines 51-62). \<open>ready c\<close> says that the \<^verbatim>\<open>readyState\<close> of socket \<open>c\<close>
  is \<^verbatim>\<open>OPEN\<close>. The result lists the calls of \<^verbatim>\<open>send\<close> in order.
\<close>

definition broadcast ::
  "(socket \<Rightarrow> bool) \<Rightarrow> rooms \<Rightarrow> string \<Rightarrow> outbound \<Rightarrow> socket option
     \<Rightarrow> js_error + (socket \<times> outbound) list" where
  "broadcast ready rooms roomId message currentUser =
     (case rooms_get rooms roomId of
        Own r \<Rightarrow>
          Inr (map (\<lambda>client. (client, message))
                 (filter (\<lambda>client. currentUser \<noteq> Some client \<and> ready client) (users r)))
      | _ \<Rightarrow> Inl TypeError)"

datatype outcome = Done | Threw js_error

text \<open>\<^verbatim>\<open>checkAndDeleteRoom\<close> (lines 64-73), given \<^verbatim>\<open>Date.now()\<close>.\<close>

definition checkAndDeleteRoom :: "int \<Rightarrow> string \<Rightarrow> rooms \<Rightarrow> rooms \<times> outcome" where
  "checkAndDeleteRoom now roomId rooms =
     (case rooms_get rooms roomId of
        Absent \<Rightarrow> (rooms, Done)
      | Inherited \<Rightarrow> (rooms, Threw TypeError)
      | Own r \<Rightarrow>
          if length (users r) = 0 then
            (let elapsedTime = now - startTime r
             in if elapsedTime \<ge> 5 * 60 * 1000 then (rooms(roomId := None), Done)
                else (rooms, Done))
          else (rooms, Done))"

section \<open>A connection and its handlers\<close>

text \<open>
  The arrays of a room are lists here, and every update builds a new value. The source
  changes \<^verbatim>\<open>drawings\<close> in place (\<^verbatim>\<open>push\<close>, line 115), which would matter if that array
  were also an entry of \<^verbatim>\<open>history\<close> or \<^verbatim>\<open>redoStack\<close>. It never is: every entry pushed
  onto either stack is a fresh copy (\<^verbatim>\<open>[...drawings]\<close>), the initial \<^verbatim>\<open>drawings\<close> and the
  initial entry of \<^verbatim>\<open>history\<close> are two arrays, and an entry that becomes \<^verbatim>\<open>drawings\<close>
  has just been popped off its stack. The payloads inside the arrays are never changed.
\<close>


text \<open>
  What the \<^verbatim>\<open>connection\<close> callback (lines 75-85) binds for its two handlers: the socket
  and the query parameters \<^verbatim>\<open>room\<close> and \<^verbatim>\<open>username\<close>.
\<close>

record connection =
  ws :: socket
  roomId :: string
  username :: "string option"

text \<open>Without a \<^verbatim>\<open>room\<close> parameter the socket is closed and no handler is set up.\<close>

definition on_connection :: "socket \<Rightarrow> string option \<Rightarrow> string option \<Rightarrow> connection option" where
  "on_connection s room_param username_param =
     (case room_param of
        None \<Rightarrow> None
      | Some r \<Rightarrow> if r = [] then None
                  else Some \<lparr>ws = s, roomId = r, username = username_param\<rparr>)"

text \<open>
  A handler run ends with the table as it left it, the sends it made, and whether it
  returned or threw.
\<close>

type_synonym result = "rooms \<times> (socket \<times> outbound) list \<times> outcome"

definition after_broadcast :: "rooms \<Rightarrow> js_error + (socket \<times> outbound) list \<Rightarrow> result" where
  "after_broadcast rooms b =
     (case b of Inl e \<Rightarrow> (rooms, [], Threw e) | Inr sends \<Rightarrow> (rooms, sends, Done))"

text \<open>\<^verbatim>\<open>Array.prototype.pop\<close>: the last element, or \<^verbatim>\<open>undefined\<close> on an empty array.\<close>

definition js_pop :: "'a list \<Rightarrow> 'a option \<times> 'a list" where
  "js_pop xs = (if xs = [] then (None, []) else (Some (last xs), butlast xs))"

text \<open>\<^verbatim>\<open>x || []\<close> for an array or \<^verbatim>\<open>undefined\<close>: every array is truthy.\<close>

fun or_empty :: "'a list option \<Rightarrow> 'a list" where
  "or_empty None = []"
| "or_empty (Some xs) = xs"

text \<open>
  Each branch that broadcasts builds the text of its message, with \<^verbatim>\<open>JSON.stringify\<close>,
  after it has changed the room and before it calls \<^verbatim>\<open>broadcast\<close>. When that throws,
  the change stays and nothing is sent.
\<close>

definition send_to_room ::
  "engine \<Rightarrow> (socket \<Rightarrow> bool) \<Rightarrow> rooms \<Rightarrow> string \<Rightarrow> outbound \<Rightarrow> socket option \<Rightarrow> result" where
  "send_to_room eng ready rooms key content currentUser =
     (case stringify eng content of
        Inl e \<Rightarrow> (rooms, [], Threw e)
      | Inr message \<Rightarrow> after_broadcast rooms (broadcast ready rooms key message currentUser))"

text \<open>
  The \<^verbatim>\<open>join-room\<close> branch (lines 92-108). The key is converted when line 94 looks
  the room up.
\<close>

definition join_room_event ::
  "engine \<Rightarrow> (socket \<Rightarrow> bool) \<Rightarrow> connection \<Rightarrow> json option \<Rightarrow> rooms \<Rightarrow> result" where
  "join_room_event eng ready conn eventData rooms =
     (case destructure eventData of
        Inl e \<Rightarrow> (rooms, [], Threw e)
      | Inr payload \<Rightarrow>
          let username' = get_prop payload ''username''
          in case to_property_key (join_depth eng) (get_prop payload ''roomId'') of
               Inl e \<Rightarrow> (rooms, [], Threw e)
             | Inr key \<Rightarrow>
                 (case rooms_get rooms key of
                    Absent \<Rightarrow> (rooms, [], Done)
                  | Inherited \<Rightarrow> (rooms, [], Threw TypeError)
                  | Own r \<Rightarrow>
                      let rooms1 = rooms(key \<mapsto> r\<lparr>users := users r @ [ws conn]\<rparr>)
                      in send_to_room eng ready rooms1 key (UserJoined username')
                           (Some (ws conn))))"

text \<open>
  The \<^verbatim>\<open>draw\<close> branch (lines 110-120). The key is converted when line 112 looks the
  room up, before the test of \<^verbatim>\<open>strokes\<close>.
\<close>

definition draw_event ::
  "engine \<Rightarrow> (socket \<Rightarrow> bool) \<Rightarrow> connection \<Rightarrow> json option \<Rightarrow> rooms \<Rightarrow> result" where
  "draw_event eng ready conn eventData rooms =
     (case destructure eventData of
        Inl e \<Rightarrow> (rooms, [], Threw e)
      | Inr payload \<Rightarrow>
          let drawData = rest_without_roomId payload
          in case to_property_key (join_depth eng) (get_prop payload ''roomId'') of
               Inl e \<Rightarrow> (rooms, [], Threw e)
             | Inr key \<Rightarrow>
                 (case rooms_get rooms key of
                    Absent \<Rightarrow> (rooms, [], Done)
                  | found \<Rightarrow>
                      (case length_is_zero (get_prop drawData ''strokes'') of
                         Inl e \<Rightarrow> (rooms, [], Threw e)
                       | Inr True \<Rightarrow> (rooms, [], Done)
                       | Inr False \<Rightarrow>
                           (case found of
                              Own r \<Rightarrow>
                                let r1 = r\<lparr>drawings := drawings r @ [drawData]\<rparr>;
                                    r2 = r1\<lparr>history := history r1 @ [drawings r1]\<rparr>;
                                    r3 = r2\<lparr>redoStack := []\<rparr>;
                                    rooms1 = rooms(key \<mapsto> r3)
                                in send_to_room eng ready rooms1 key (DrawMsg drawData)
                                     (Some (ws conn))
                            | _ \<Rightarrow> (rooms, [], Threw TypeError)))))"

text \<open>The \<^verbatim>\<open>undo\<close> branch (lines 122-136); the room is the connection's.\<close>

definition undo_event :: "engine \<Rightarrow> (socket \<Rightarrow> bool) \<Rightarrow> connection \<Rightarrow> rooms \<Rightarrow> result" where
  "undo_event eng ready conn rooms =
     (case rooms_get rooms (roomId conn) of
        Absent \<Rightarrow> (rooms, [], Done)
      | Inherited \<Rightarrow> (rooms, [], Threw TypeError)
      | Own r \<Rightarrow>
          if length (history r) > 1 then
            (let r1 = r\<lparr>redoStack := redoStack r @ [drawings r]\<rparr>;
                 (popped, rest) = js_pop (history r1);
                 r2 = r1\<lparr>history := rest, drawings := or_empty popped\<rparr>;
                 rooms1 = rooms(roomId conn \<mapsto> r2)
             in send_to_room eng ready rooms1 (roomId conn) (UpdateCanvas (drawings r2)) None)
          else (rooms, [], Done))"

text \<open>The \<^verbatim>\<open>redo\<close> branch (lines 138-152).\<close>

definition redo_event :: "engine \<Rightarrow> (socket \<Rightarrow> bool) \<Rightarrow> connection \<Rightarrow> rooms \<Rightarrow> result" where
  "redo_event eng ready conn rooms =
     (case rooms_get rooms (roomId conn) of
        Absent \<Rightarrow> (rooms, [], Done)
      | Inherited \<Rightarrow> (rooms, [], Threw TypeError)
      | Own r \<Rightarrow>
          if length (redoStack r) > 0 then
            (let r1 = r\<lparr>history := history r @ [drawings r]\<rparr>;
                 (popped, rest) = js_pop (redoStack r1);
                 r2 = r1\<lparr>redoStack := rest, drawings := or_empty popped\<rparr>;
                 rooms1 = rooms(roomId conn \<mapsto> r2)
             in send_to_room eng ready rooms1 (roomId conn) (UpdateCanvas (drawings r2)) None)
          else (rooms, [], Done))"

text \<open>The \<^verbatim>\<open>clear\<close> branch (lines 154-164).\<close>

definition clear_event :: "engine \<Rightarrow> (socket \<Rightarrow> bool) \<Rightarrow> connection \<Rightarrow> rooms \<Rightarrow> result" where
  "clear_event eng ready conn rooms =
     (case rooms_get rooms (roomId conn) of
        Absent \<Rightarrow> (rooms, [], Done)
      | Inherited \<Rightarrow> (rooms, [], Threw TypeError)
      | Own r \<Rightarrow>
          (let r1 = r\<lparr>history := history r @ [drawings r]\<rparr>;
               r2 = r1\<lparr>redoStack := []\<rparr>;
               r3 = r2\<lparr>drawings := []\<rparr>;
               rooms1 = rooms(roomId conn \<mapsto> r3)
           in send_to_room eng ready rooms1 (roomId conn) (UpdateCanvas (drawings r3)) None))"

text \<open>
  The \<^verbatim>\<open>message\<close> handler (lines 88-165). Its argument \<open>parsed\<close> is the outcome of
  \<^verbatim>\<open>JSON.parse(data)\<close>: \<open>None\<close> when that throws a SyntaxError. The source tests
  \<^verbatim>\<open>event\<close> against the five names in five \<^verbatim>\<open>if\<close> statements one after the other; the
  names differ, so at most one body runs. Nothing in the handler catches an exception.
\<close>

definition on_message ::
  "engine \<Rightarrow> (socket \<Rightarrow> bool) \<Rightarrow> connection \<Rightarrow> json option \<Rightarrow> rooms \<Rightarrow> result" where
  "on_message eng ready conn parsed rooms =
     (case parsed of
        None \<Rightarrow> (rooms, [], Threw SyntaxError)
      | Some v \<Rightarrow>
          (case destructure (Some v) of
             Inl e \<Rightarrow> (rooms, [], Threw e)
           | Inr msg \<Rightarrow>
               let event = get_prop msg ''event''; eventData = get_prop msg ''data''
               in if event = Some (JStr ''join-room'')
                    then join_room_event eng ready conn eventData rooms
                  else if event = Some (JStr ''draw'')
                    then draw_event eng ready conn eventData rooms
                  else if event = Some (JStr ''undo'') then undo_event eng ready conn rooms
                  else if event = Some (JStr ''redo'') then redo_event eng ready conn rooms
                  else if event = Some (JStr ''clear'') then clear_event eng ready conn rooms
                  else (rooms, [], Done)))"

text \<open>
  The \<^verbatim>\<open>close\<close> handler (lines 168-177), given \<^verbatim>\<open>Date.now()\<close>. On an inherited
  value line 170 stores \<^verbatim>\<open>undefined\<close> as its \<^verbatim>\<open>users\<close>, which leaves the table as it
  is, and the check that follows throws.
\<close>

definition on_close :: "int \<Rightarrow> connection \<Rightarrow> rooms \<Rightarrow> rooms \<times> outcome" where
  "on_close now conn rooms =
     (case rooms_get rooms (roomId conn) of
        Absent \<Rightarrow> (rooms, Done)
      | Inherited \<Rightarrow> checkAndDeleteRoom now (roomId conn) rooms
      | Own r \<Rightarrow>
          checkAndDeleteRoom now (roomId conn)
            (rooms(roomId conn \<mapsto> r\<lparr>users := filter (\<lambda>client. client \<noteq> ws conn) (users r)\<rparr>)))"

section \<open>Runs of the server\<close>

text \<open>
  What reaches the server: a creation request, a frame on a connection (with the
  readiness of the sockets at that moment), or the closing of a connection. A run goes
  on after a handler has thrown, with the table as the handler left it.
\<close>

datatype request =
    CreateRoom string int
  | Message "socket \<Rightarrow> bool" connection "json option"
  | Close int connection

fun step :: "engine \<Rightarrow> rooms \<Rightarrow> request \<Rightarrow> rooms" where
  "step eng rooms (CreateRoom random36 now) = fst (create_room random36 now rooms)"
| "step eng rooms (Message ready conn parsed) = fst (on_message eng ready conn parsed rooms)"
| "step eng rooms (Close now conn) = fst (on_close now conn rooms)"

definition run :: "engine \<Rightarrow> rooms \<Rightarrow> request list \<Rightarrow> rooms" where
  "run eng rooms reqs = foldl (step eng) rooms reqs"

text \<open>A frame as the client library builds it: an object with \<^verbatim>\<open>event\<close> and \<^verbatim>\<open>data\<close>.\<close>

definition envelope :: "string \<Rightarrow> json option \<Rightarrow> json option" where
  "envelope event payload =
     Some (JObj ((''event'', JStr event) #
                 (case payload of None \<Rightarrow> [] | Some d \<Rightarrow> [(''data'', d)])))"

section \<open>Notions used in the statements\<close>

definition sends_of :: "result \<Rightarrow> (socket \<times> outbound) list" where
  "sends_of res = fst (snd res)"

definition outcome_of :: "result \<Rightarrow> outcome" where
  "outcome_of res = snd (snd res)"



text \<open>The room under a key, if there is one, has at least one snapshot in its history.\<close>

definition history_ok :: "rooms \<Rightarrow> string \<Rightarrow> bool" where
  "history_ok rooms key =
     (case rooms key of None \<Rightarrow> True | Some r \<Rightarrow> 1 \<le> length (history r))"

section \<open>A session, for the evaluations\<close>

text \<open>
  An engine with a small stack, so that the values are short: \<^verbatim>\<open>JSON.stringify\<close>
  returns for an envelope nested at most six deep, and six nested calls of \<^verbatim>\<open>join\<close>
  fit.
\<close>

fun depth :: "json \<Rightarrow> nat" where
  "depth (JArr xs) = Suc (foldr max (map depth xs) 0)"
| "depth (JObj kvs) = Suc (foldr max (map (\<lambda>kv. depth (snd kv)) kvs) 0)"
| "depth _ = 0"

fun outbound_depth :: "outbound \<Rightarrow> nat" where
  "outbound_depth (UserJoined None) = 2"
| "outbound_depth (UserJoined (Some name)) = 2 + depth name"
| "outbound_depth (DrawMsg d) = 1 + depth d"
| "outbound_depth (UpdateCanvas ds) = 1 + depth (JArr ds)"

definition fits_six :: "outbound \<Rightarrow> bool" where
  "fits_six message = (outbound_depth message \<le> 6)"

definition small_stack :: engine where
  "small_stack = \<lparr>join_depth = 6, serialises = fits_six\<rparr>"



text \<open>
  Three sockets connect with \<^verbatim>\<open>?room=abc123\<close>. Socket 3 is no longer open in the later
  part of the session.
\<close>

definition alice :: connection where
  "alice = \<lparr>ws = 1, roomId = ''abc123'', username = Some ''alice''\<rparr>"

definition bob :: connection where
  "bob = \<lparr>ws = 2, roomId = ''abc123'', username = Some ''bob''\<rparr>"

definition carol :: connection where
  "carol = \<lparr>ws = 3, roomId = ''abc123'', username = Some ''carol''\<rparr>"

definition all_open :: "socket \<Rightarrow> bool" where
  "all_open c = True"

definition carol_gone :: "socket \<Rightarrow> bool" where
  "carol_gone c = (c \<noteq> 3)"

definition join_payload :: "string \<Rightarrow> string \<Rightarrow> json" where
  "join_payload room_key name = JObj [(''roomId'', JStr room_key), (''username'', JStr name)]"

definition draw_payload :: "string \<Rightarrow> json \<Rightarrow> json" where
  "draw_payload room_key strokes = JObj [(''roomId'', JStr room_key), (''strokes'', strokes)]"

text \<open>What the draw branch stores and forwards for \<open>draw_payload k (JArr [JStr point])\<close>.\<close>

definition stroke :: "string \<Rightarrow> json" where
  "stroke point = JObj [(''strokes'', JArr [JStr point])]"

text \<open>
  Strokes that the small stack can serialise in a draw message and not in an
  update-canvas message, which nests them one level deeper; strokes that it cannot
  serialise in either; and a room key that owns \<^verbatim>\<open>toString\<close>.
\<close>

definition deep_strokes :: json where
  "deep_strokes = JArr [JArr [JArr [JArr [JStr ''p'']]]]"

definition deeper_strokes :: json where
  "deeper_strokes = JArr [deep_strokes]"

definition odd_key :: json where
  "odd_key = JObj [(''toString'', JNum ''1'')]"


definition fresh_rooms :: rooms where
  "fresh_rooms = fst (create_room ''0.abc123xyz'' 1000 Map.empty)"

definition drawn_once :: rooms where
  "drawn_once =
     fst (on_message small_stack all_open alice
            (envelope ''draw'' (Some (draw_payload ''abc123'' (JArr [JStr ''p1''])))) fresh_rooms)"

definition drawn_twice :: rooms where
  "drawn_twice =
     fst (on_message small_stack all_open alice
            (envelope ''draw'' (Some (draw_payload ''abc123'' (JArr [JStr ''p2''])))) drawn_once)"

text \<open>The room after a draw of the deep strokes, which the small stack serialises.\<close>

definition drawn_deep :: rooms where
  "drawn_deep =
     fst (on_message small_stack all_open alice
            (envelope ''draw'' (Some (draw_payload ''abc123'' deep_strokes))) fresh_rooms)"

definition session :: "request list" where
  "session =
     [Message all_open alice (envelope ''join-room'' (Some (join_payload ''abc123'' ''alice''))),
      Message all_open bob (envelope ''join-room'' (Some (join_payload ''abc123'' ''bob''))),
      Message all_open carol (envelope ''join-room'' (Some (join_payload ''abc123'' ''carol''))),
      Message all_open alice (envelope ''draw'' (Some (draw_payload ''abc123'' (JArr [JStr ''p1'']))))]"

definition session_undo :: "request list" where
  "session_undo =
     session @
     [Message carol_gone bob (envelope ''draw'' (Some (draw_payload ''abc123'' (JArr [JStr ''p2''])))),
      Message carol_gone alice (envelope ''undo'' None)]"

definition lobby :: rooms where
  "lobby = run small_stack fresh_rooms session_undo"

definition lobby_room :: room where
  "lobby_room =
     \<lparr>drawings = [stroke ''p1'', stroke ''p2''],
      history = [[], [stroke ''p1'']],
      redoStack = [[stroke ''p1'', stroke ''p2'']],
      users = [1, 2, 3],
      startTime = 1000\<rparr>"

text \<open>Two rooms, and a connection bound to the first that joins the second.\<close>

definition two_rooms :: rooms where
  "two_rooms = fst (create_room ''0.xyz789abc'' 1000 fresh_rooms)"

definition joined_other :: rooms where
  "joined_other =
     fst (on_message small_stack all_open alice
            (envelope ''join-room'' (Some (join_payload ''xyz789'' ''alice''))) two_rooms)"

section \<open>How the handlers compute\<close>

lemma on_message_envelope:
  "on_message eng ready conn (envelope ''join-room'' d) rooms
     = join_room_event eng ready conn d rooms"
  "on_message eng ready conn (envelope ''draw'' d) rooms = draw_event eng ready conn d rooms"
  "on_message eng ready conn (envelope ''undo'' d) rooms = undo_event eng ready conn rooms"
  "on_message eng ready conn (envelope ''redo'' d) rooms = redo_event eng ready conn rooms"
  "on_message eng ready conn (envelope ''clear'' d) rooms = clear_event eng ready conn rooms"
  by (simp_all add: on_message_def envelope_def split: option.splits)

lemma destructure_value: "d \<noteq> JNull \<Longrightarrow> destructure (Some d) = Inr d"
  by (cases d) simp_all


lemma rooms_get_own: "rooms key = Some r \<Longrightarrow> rooms_get rooms key = Own r"
  by (simp add: rooms_get_def)

lemma butlast_nonempty: "1 < length xs \<Longrightarrow> butlast xs \<noteq> []"
  by (cases xs rule: rev_cases) auto

lemma filter_is_removeAll: "filter (\<lambda>x. x \<noteq> a) xs = removeAll a xs"
  by (induction xs) auto

lemma map_of_filter_other:
  "name \<noteq> k \<Longrightarrow> map_of (filter (\<lambda>kv. fst kv \<noteq> k) kvs) name = map_of kvs name"
  by (induction kvs) auto

lemma get_prop_Some_obj: "get_prop d name = Some v \<Longrightarrow> \<exists>kvs. d = JObj kvs"
  by (cases d) simp_all


text \<open>
  A message to a room that is there: sent to its open members, but for the excluded
  socket, when it serialises; a RangeError and no send when it does not.
\<close>

lemma send_to_room_own:
  assumes "rooms key = Some r"
  shows "send_to_room eng ready rooms key m excl =
           (rooms,
            if serialises eng m
              then map (\<lambda>c. (c, m)) (filter (\<lambda>c. excl \<noteq> Some c \<and> ready c) (users r))
              else [],
            if serialises eng m then Done else Threw RangeError)"
  using assms
  by (simp add: send_to_room_def stringify_def broadcast_def after_broadcast_def rooms_get_own)

lemma join_room_event_own:
  assumes "d \<noteq> JNull"
    and "to_property_key (join_depth eng) (get_prop d ''roomId'') = Inr key"
    and "rooms key = Some r"
  shows "join_room_event eng ready conn (Some d) rooms =
           (rooms(key \<mapsto> r\<lparr>users := users r @ [ws conn]\<rparr>),
            if serialises eng (UserJoined (get_prop d ''username''))
              then map (\<lambda>c. (c, UserJoined (get_prop d ''username'')))
                     (filter (\<lambda>c. c \<noteq> ws conn \<and> ready c) (users r @ [ws conn]))
              else [],
            if serialises eng (UserJoined (get_prop d ''username'')) then Done
            else Threw RangeError)"
  using assms destructure_value[OF assms(1)]
  by (simp add: join_room_event_def rooms_get_own send_to_room_own Let_def
      eq_commute[of "ws conn"])

lemma draw_event_own:
  assumes "d \<noteq> JNull"
    and "to_property_key (join_depth eng) (get_prop d ''roomId'') = Inr key"
    and "rooms key = Some r"
    and "length_is_zero (get_prop (rest_without_roomId d) ''strokes'') = Inr False"
  shows "draw_event eng ready conn (Some d) rooms =
           (rooms(key \<mapsto>
                    r\<lparr>drawings := drawings r @ [rest_without_roomId d],
                      history := history r @ [drawings r @ [rest_without_roomId d]],
                      redoStack := []\<rparr>),
            if serialises eng (DrawMsg (rest_without_roomId d))
              then map (\<lambda>c. (c, DrawMsg (rest_without_roomId d)))
                     (filter (\<lambda>c. c \<noteq> ws conn \<and> ready c) (users r))
              else [],
            if serialises eng (DrawMsg (rest_without_roomId d)) then Done
            else Threw RangeError)"
  using assms destructure_value[OF assms(1)]
  by (simp add: draw_event_def rooms_get_own send_to_room_own Let_def
      eq_commute[of "ws conn"])

lemma undo_event_own:
  assumes "rooms (roomId conn) = Some r" and "1 < length (history r)"
  shows "undo_event eng ready conn rooms =
           (rooms(roomId conn \<mapsto> r\<lparr>redoStack := redoStack r @ [drawings r],
                                    history := butlast (history r),
                                    drawings := last (history r)\<rparr>),
            if serialises eng (UpdateCanvas (last (history r)))
              then map (\<lambda>c. (c, UpdateCanvas (last (history r)))) (filter ready (users r))
              else [],
            if serialises eng (UpdateCanvas (last (history r))) then Done
            else Threw RangeError)"
  using assms
  by (auto simp: undo_event_def rooms_get_own js_pop_def send_to_room_own Let_def)

lemma redo_event_own:
  assumes "rooms (roomId conn) = Some r" and "redoStack r \<noteq> []"
  shows "redo_event eng ready conn rooms =
           (rooms(roomId conn \<mapsto> r\<lparr>history := history r @ [drawings r],
                                    redoStack := butlast (redoStack r),
                                    drawings := last (redoStack r)\<rparr>),
            if serialises eng (UpdateCanvas (last (redoStack r)))
              then map (\<lambda>c. (c, UpdateCanvas (last (redoStack r)))) (filter ready (users r))
              else [],
            if serialises eng (UpdateCanvas (last (redoStack r))) then Done
            else Threw RangeError)"
  using assms
  by (auto simp: redo_event_def rooms_get_own js_pop_def send_to_room_own Let_def)

lemma clear_event_own:
  assumes "rooms (roomId conn) = Some r"
  shows "clear_event eng ready conn rooms =
           (rooms(roomId conn \<mapsto> r\<lparr>history := history r @ [drawings r],
                                    redoStack := [], drawings := []\<rparr>),
            if serialises eng (UpdateCanvas [])
              then map (\<lambda>c. (c, UpdateCanvas [])) (filter ready (users r))
              else [],
            if serialises eng (UpdateCanvas []) then Done else Threw RangeError)"
  using assms
  by (auto simp: clear_event_def rooms_get_own send_to_room_own Let_def)

text \<open>A connection that gets its handlers is bound to a non-empty room key.\<close>

lemma on_connection_bound:
  "on_connection s room_param username_param = Some conn \<Longrightarrow>
     ws conn = s \<and> roomId conn \<noteq> [] \<and> room_param = Some (roomId conn)"
  by (auto simp: on_connection_def split: option.splits if_splits)

text \<open>
  A key that is a string, a number, a boolean or \<^verbatim>\<open>null\<close> is converted on any stack;
  so is an object that does not own \<^verbatim>\<open>toString\<close>.
\<close>

lemma to_property_key_plain:
  "to_property_key n None = Inr ''undefined''"
  "to_property_key n (Some (JStr s)) = Inr s"
  "to_property_key n (Some (JNum s)) = Inr s"
  "to_property_key n (Some JNull) = Inr ''null''"
  "''toString'' \<notin> set (map fst kvs) \<Longrightarrow>
     to_property_key n (Some (JObj kvs)) = Inr ''[object Object]''"
  by simp_all

section \<open>The session, evaluated\<close>

lemma fresh_rooms_eval:
  "fresh_rooms = [''abc123'' \<mapsto>
     \<lparr>drawings = [], history = [[]], redoStack = [], users = [], startTime = 1000\<rparr>]"
  by (simp add: Let_def fresh_rooms_def create_room_def generateRoomId_def)

lemma draw_payload_facts:
  "draw_payload k s \<noteq> JNull"
  "to_property_key n (get_prop (draw_payload k s) ''roomId'') = Inr k"
  "rest_without_roomId (draw_payload k s) = JObj [(''strokes'', s)]"
  "get_prop (draw_payload k s) ''strokes'' = Some s"
  "get_prop (draw_payload k s) ''username'' = None"
  by (simp_all add: draw_payload_def)

lemma join_payload_facts:
  "join_payload k n \<noteq> JNull"
  "to_property_key m (get_prop (join_payload k n) ''roomId'') = Inr k"
  "get_prop (join_payload k n) ''username'' = Some (JStr n)"
  by (simp_all add: join_payload_def)

lemma small_stack_serialises:
  "serialises small_stack (UserJoined (Some (JStr n)))"
  "serialises small_stack (UserJoined None)"
  "serialises small_stack (DrawMsg (stroke p))"
  "serialises small_stack (UpdateCanvas [])"
  "serialises small_stack (UpdateCanvas [stroke p])"
  "serialises small_stack (UpdateCanvas [stroke p, stroke q])"
  "serialises small_stack (DrawMsg (JObj [(''strokes'', deep_strokes)]))"
  "\<not> serialises small_stack (UpdateCanvas [JObj [(''strokes'', deep_strokes)]])"
  "\<not> serialises small_stack (DrawMsg (JObj [(''strokes'', deeper_strokes)]))"
  by (simp_all add: small_stack_def fits_six_def stroke_def deep_strokes_def deeper_strokes_def)

lemma draw_point:
  assumes "rooms k = Some r"
  shows "on_message small_stack ready conn
           (envelope ''draw'' (Some (draw_payload k (JArr [JStr p])))) rooms =
           (rooms(k \<mapsto> r\<lparr>drawings := drawings r @ [stroke p],
                           history := history r @ [drawings r @ [stroke p]],
                           redoStack := []\<rparr>),
            map (\<lambda>c. (c, DrawMsg (stroke p))) (filter (\<lambda>c. c \<noteq> ws conn \<and> ready c) (users r)),
            Done)"
  using draw_event_own[of "draw_payload k (JArr [JStr p])" small_stack k rooms r ready conn]
    assms small_stack_serialises(3)[of p]
  by (simp add: on_message_envelope draw_payload_facts stroke_def)

lemma join_named:
  assumes "rooms k = Some r"
  shows "on_message small_stack ready conn
           (envelope ''join-room'' (Some (join_payload k n))) rooms =
           (rooms(k \<mapsto> r\<lparr>users := users r @ [ws conn]\<rparr>),
            map (\<lambda>c. (c, UserJoined (Some (JStr n))))
              (filter (\<lambda>c. c \<noteq> ws conn \<and> ready c) (users r @ [ws conn])),
            Done)"
  using join_room_event_own[of "join_payload k n" small_stack k rooms r ready conn] assms
  by (simp add: on_message_envelope join_payload_facts small_stack_serialises)

lemma drawn_once_eval:
  "drawn_once = [''abc123'' \<mapsto>
     \<lparr>drawings = [stroke ''p1''], history = [[], [stroke ''p1'']], redoStack = [],
      users = [], startTime = 1000\<rparr>]"
  by (simp add: drawn_once_def fresh_rooms_eval draw_point)

lemma drawn_twice_eval:
  "drawn_twice = [''abc123'' \<mapsto>
     \<lparr>drawings = [stroke ''p1'', stroke ''p2''],
      history = [[], [stroke ''p1''], [stroke ''p1'', stroke ''p2'']], redoStack = [],
      users = [], startTime = 1000\<rparr>]"
  by (simp add: drawn_twice_def drawn_once_eval draw_point)

lemma run_session:
  "run small_stack fresh_rooms session = [''abc123'' \<mapsto>
     \<lparr>drawings = [stroke ''p1''], history = [[], [stroke ''p1'']], redoStack = [],
      users = [1, 2, 3], startTime = 1000\<rparr>]"
  by (simp add: run_def session_def fresh_rooms_eval join_named draw_point
      alice_def bob_def carol_def)

lemma lobby_eval: "lobby = [''abc123'' \<mapsto> lobby_room]"
proof -
  let ?drawn = "[''abc123'' \<mapsto>
     \<lparr>drawings = [stroke ''p1'', stroke ''p2''],
      history = [[], [stroke ''p1''], [stroke ''p1'', stroke ''p2'']], redoStack = [],
      users = [1, 2, 3], startTime = 1000\<rparr>]"
  have split: "lobby = foldl (step small_stack) (run small_stack fresh_rooms session)
                  [Message carol_gone bob
                     (envelope ''draw'' (Some (draw_payload ''abc123'' (JArr [JStr ''p2''])))),
                   Message carol_gone alice (envelope ''undo'' None)]"
    by (simp add: lobby_def session_undo_def run_def)
  have drawn: "fst (on_message small_stack carol_gone bob
                 (envelope ''draw'' (Some (draw_payload ''abc123'' (JArr [JStr ''p2'']))))
                 (run small_stack fresh_rooms session)) = ?drawn"
    by (simp add: run_session draw_point)
  have undone: "fst (on_message small_stack carol_gone alice (envelope ''undo'' None) ?drawn)
                  = [''abc123'' \<mapsto> lobby_room]"
    by (simp add: on_message_envelope undo_event_own alice_def lobby_room_def)
  show ?thesis
    unfolding split by (simp only: foldl.simps step.simps drawn undone)
qed

lemma two_rooms_eval:
  "two_rooms = [''abc123'' \<mapsto>
       \<lparr>drawings = [], history = [[]], redoStack = [], users = [], startTime = 1000\<rparr>,
     ''xyz789'' \<mapsto>
       \<lparr>drawings = [], history = [[]], redoStack = [], users = [], startTime = 1000\<rparr>]"
  by (simp add: Let_def two_rooms_def fresh_rooms_eval create_room_def generateRoomId_def)

lemma joined_other_eval:
  "joined_other = [''abc123'' \<mapsto>
       \<lparr>drawings = [], history = [[]], redoStack = [], users = [], startTime = 1000\<rparr>,
     ''xyz789'' \<mapsto>
       \<lparr>drawings = [], history = [[]], redoStack = [], users = [1], startTime = 1000\<rparr>]"
  by (simp add: joined_other_def two_rooms_eval join_named alice_def)

lemma drawn_deep_eval:
  "drawn_deep = [''abc123'' \<mapsto>
     \<lparr>drawings = [JObj [(''strokes'', deep_strokes)]],
      history = [[], [JObj [(''strokes'', deep_strokes)]]], redoStack = [],
      users = [], startTime = 1000\<rparr>]"
proof -
  have z: "length_is_zero (Some deep_strokes) = Inr False"
    by (simp add: deep_strokes_def)
  show ?thesis
    using draw_event_own[of "draw_payload ''abc123'' deep_strokes" small_stack "''abc123''"
        fresh_rooms _ all_open alice]
    by (simp add: drawn_deep_def on_message_envelope draw_payload_facts fresh_rooms_eval z)
qed

section \<open>Draw, undo and redo\<close>

text \<open>
  The clear branch saves the canvas before it changes it, so an undo right after a clear
  brings the canvas back.
\<close>

lemma clear_then_undo_restores_drawings:
  assumes "rooms (roomId conn) = Some r" and "history r \<noteq> []"
  shows "map_option drawings
           (fst (on_message eng' ready' conn (envelope ''undo'' p')
                  (fst (on_message eng ready conn (envelope ''clear'' p) rooms))) (roomId conn))
         = Some (drawings r)"
proof -
  let ?r1 = "r\<lparr>history := history r @ [drawings r], redoStack := [], drawings := []\<rparr>"
  have c: "fst (clear_event eng ready conn rooms) = rooms(roomId conn \<mapsto> ?r1)"
    using assms by (simp add: clear_event_own)
  have "1 < length (history ?r1)" using assms(2) by (cases "history r") simp_all
  then show ?thesis
    unfolding on_message_envelope c
    by (subst undo_event_own[where r = ?r1]) simp_all
qed

text \<open>
  The draw branch saves the canvas after it has changed it. An undo right after a draw
  therefore pops the snapshot that already holds the new payload, and the payload stays.
\<close>

lemma draw_then_undo_keeps_payload:
  assumes "d \<noteq> JNull"
    and "to_property_key (join_depth eng) (get_prop d ''roomId'') = Inr (roomId conn')"
    and "rooms (roomId conn') = Some r"
    and "length_is_zero (get_prop (rest_without_roomId d) ''strokes'') = Inr False"
    and "history r \<noteq> []"
  shows "map_option drawings
           (fst (on_message eng' ready' conn' (envelope ''undo'' p)
                  (fst (on_message eng ready conn (envelope ''draw'' (Some d)) rooms)))
              (roomId conn'))
         = Some (drawings r @ [rest_without_roomId d])"
proof -
  let ?r1 = "r\<lparr>drawings := drawings r @ [rest_without_roomId d],
               history := history r @ [drawings r @ [rest_without_roomId d]],
               redoStack := []\<rparr>"
  have c: "fst (draw_event eng ready conn (Some d) rooms) = rooms(roomId conn' \<mapsto> ?r1)"
    using assms(1-4) by (simp add: draw_event_own)
  have "1 < length (history ?r1)" using assms(5) by (cases "history r") simp_all
  then show ?thesis
    unfolding on_message_envelope c
    by (subst undo_event_own[where r = ?r1]) simp_all
qed

text \<open>
  C1. Claimed: a draw with non-empty strokes followed at once by an undo leaves
  \<open>drawings\<close> as it was before the draw. In the source the draw branch pushes the canvas
  onto \<open>history\<close> after it has appended the new payload, and the undo branch takes the
  entry it pops as the new canvas. In a room just created, a draw of one stroke followed
  by an undo leaves that stroke on the canvas, where the canvas before the draw was empty.
\<close>

theorem draw_then_undo_keeps_stroke:
  "map_option drawings (fresh_rooms ''abc123'') = Some []
   \<and> map_option drawings
        (fst (on_message small_stack all_open alice (envelope ''undo'' None) drawn_once)
           ''abc123'')
      = Some [stroke ''p1'']"
  by (simp add: fresh_rooms_eval drawn_once_eval on_message_envelope undo_event_own alice_def)

text \<open>
  C2, as the source has it. In a room whose history has more than one entry, an undo
  pushes a copy of \<open>drawings\<close> onto \<open>redoStack\<close>, pops the top of \<open>history\<close> and makes
  that popped entry the new \<open>drawings\<close>. It then builds the update-canvas message with
  the new \<open>drawings\<close>: when that serialises, the message goes to every open member and
  the handler returns; when it does not, the handler throws a RangeError, the room stays
  changed and nothing is sent.
\<close>

theorem undo_takes_popped_snapshot:
  assumes "rooms (roomId conn) = Some r" and "1 < length (history r)"
  shows "on_message eng ready conn (envelope ''undo'' p) rooms =
           (rooms(roomId conn \<mapsto>
                    r\<lparr>redoStack := redoStack r @ [drawings r],
                      history := butlast (history r),
                      drawings := last (history r)\<rparr>),
            if serialises eng (UpdateCanvas (last (history r)))
              then map (\<lambda>c. (c, UpdateCanvas (last (history r)))) (filter ready (users r))
              else [],
            if serialises eng (UpdateCanvas (last (history r))) then Done
            else Threw RangeError)"
  using assms by (simp add: on_message_envelope undo_event_own)

text \<open>
  In the room of the session the message serialises and reaches sockets 1 and 2. In the
  room that holds the deep strokes it does not: the undo changes the room and throws.
\<close>

theorem undo_takes_popped_snapshot_witness:
  "lobby (roomId alice) = Some lobby_room
   \<and> 1 < length (history lobby_room)
   \<and> on_message small_stack carol_gone alice (envelope ''undo'' None) lobby =
       ([''abc123'' \<mapsto>
           \<lparr>drawings = [stroke ''p1''],
            history = [[]],
            redoStack = [[stroke ''p1'', stroke ''p2''], [stroke ''p1'', stroke ''p2'']],
            users = [1, 2, 3],
            startTime = 1000\<rparr>],
        [(1, UpdateCanvas [stroke ''p1'']), (2, UpdateCanvas [stroke ''p1''])],
        Done)
   \<and> on_message small_stack all_open alice (envelope ''undo'' None) drawn_deep =
       ([''abc123'' \<mapsto>
           \<lparr>drawings = [JObj [(''strokes'', deep_strokes)]],
            history = [[]],
            redoStack = [[JObj [(''strokes'', deep_strokes)]]],
            users = [],
            startTime = 1000\<rparr>],
        [],
        Threw RangeError)"
proof -
  have h1: "lobby (roomId alice) = Some lobby_room" by (simp add: lobby_eval alice_def)
  have h2: "1 < length (history lobby_room)" by (simp add: lobby_room_def)
  let ?deep = "\<lparr>drawings = [JObj [(''strokes'', deep_strokes)]],
      history = [[], [JObj [(''strokes'', deep_strokes)]]], redoStack = [],
      users = [], startTime = 1000\<rparr>"
  have d1: "drawn_deep (roomId alice) = Some ?deep" by (simp add: drawn_deep_eval alice_def)
  have d2: "1 < length (history ?deep)" by simp
  have a: "on_message small_stack carol_gone alice (envelope ''undo'' None) lobby =
       ([''abc123'' \<mapsto>
           \<lparr>drawings = [stroke ''p1''],
            history = [[]],
            redoStack = [[stroke ''p1'', stroke ''p2''], [stroke ''p1'', stroke ''p2'']],
            users = [1, 2, 3],
            startTime = 1000\<rparr>],
        [(1, UpdateCanvas [stroke ''p1'']), (2, UpdateCanvas [stroke ''p1''])],
        Done)"
    using undo_takes_popped_snapshot[where rooms = lobby and conn = alice and r = lobby_room
        and eng = small_stack and ready = carol_gone and p = None, OF h1 h2]
    by (simp add: lobby_eval lobby_room_def alice_def carol_gone_def small_stack_serialises)
  have b: "on_message small_stack all_open alice (envelope ''undo'' None) drawn_deep =
       ([''abc123'' \<mapsto>
           \<lparr>drawings = [JObj [(''strokes'', deep_strokes)]],
            history = [[]],
            redoStack = [[JObj [(''strokes'', deep_strokes)]]],
            users = [],
            startTime = 1000\<rparr>],
        [],
        Threw RangeError)"
    using undo_takes_popped_snapshot[where rooms = drawn_deep and conn = alice and r = ?deep
        and eng = small_stack and ready = all_open and p = None, OF d1 d2]
    by (simp add: drawn_deep_eval alice_def small_stack_serialises)
  show ?thesis using h1 h2 a b by simp
qed

text \<open>
  C2 as claimed says that the new \<open>drawings\<close> is the entry below the one popped, the
  new top of \<open>history\<close>. After two draws and an undo the canvas still holds both
  strokes, while the new top of \<open>history\<close> holds only the first.
\<close>

theorem undo_new_top_counterexample:
  "map_option drawings
     (fst (on_message small_stack all_open alice (envelope ''undo'' None) drawn_twice) ''abc123'')
     = Some [stroke ''p1'', stroke ''p2'']
   \<and> map_option history
     (fst (on_message small_stack all_open alice (envelope ''undo'' None) drawn_twice) ''abc123'')
     = Some [[], [stroke ''p1'']]"
  by (simp add: drawn_twice_eval on_message_envelope undo_event_own alice_def)

text \<open>
  C10. In a room whose history has more than one entry, an undo followed at once by a
  redo, from any connection bound to the same room, gives back the room table as it was
  before the undo: \<open>drawings\<close>, \<open>history\<close>, \<open>redoStack\<close> and the rest of the room.
  This is so whether or not the two update-canvas messages serialise.
\<close>

theorem undo_then_redo_restores_room:
  assumes "rooms (roomId conn) = Some r" and "1 < length (history r)"
    and "roomId conn' = roomId conn"
  shows "fst (on_message eng' ready' conn' (envelope ''redo'' p')
               (fst (on_message eng ready conn (envelope ''undo'' p) rooms))) = rooms"
proof -
  let ?r1 = "r\<lparr>redoStack := redoStack r @ [drawings r], history := butlast (history r),
               drawings := last (history r)\<rparr>"
  let ?rooms1 = "rooms(roomId conn \<mapsto> ?r1)"
  have u: "fst (undo_event eng ready conn rooms) = ?rooms1"
    using assms(1,2) by (simp add: undo_event_own)
  have h: "history r \<noteq> []" using assms(2) by auto
  have "fst (redo_event eng' ready' conn' ?rooms1) = ?rooms1(roomId conn \<mapsto> r)"
    using assms(3) h by (subst redo_event_own[where r = ?r1]) simp_all
  also have "\<dots> = rooms" using assms(1) by (simp add: fun_upd_idem)
  finally show ?thesis unfolding on_message_envelope u .
qed

theorem undo_then_redo_restores_room_witness:
  "lobby (roomId alice) = Some lobby_room
   \<and> 1 < length (history lobby_room)
   \<and> roomId bob = roomId alice
   \<and> fst (on_message small_stack all_open bob (envelope ''redo'' None)
            (fst (on_message small_stack carol_gone alice (envelope ''undo'' None) lobby)))
       = lobby"
proof -
  have h1: "lobby (roomId alice) = Some lobby_room" by (simp add: lobby_eval alice_def)
  have h2: "1 < length (history lobby_room)" by (simp add: lobby_room_def)
  have h3: "roomId bob = roomId alice" by (simp add: alice_def bob_def)
  show ?thesis
    using h1 h2 h3
      undo_then_redo_restores_room[where rooms = lobby and conn = alice and r = lobby_room
        and conn' = bob and ready = carol_gone and ready' = all_open and p = None and p' = None
        and eng = small_stack and eng' = small_stack, OF h1 h2 h3]
    by simp
qed

text \<open>
  A draw whose \<open>strokes\<close> is the empty array returns normally when its room key can be
  converted; the conversion is the only step of it that can throw.
\<close>

lemma empty_strokes_draw_returns:
  assumes "get_prop d ''strokes'' = Some (JArr [])"
    and "to_property_key (join_depth eng) (get_prop d ''roomId'') = Inr key"
  shows "on_message eng ready conn (envelope ''draw'' (Some d)) rooms = (rooms, [], Done)"
proof -
  obtain kvs where d: "d = JObj kvs" using assms(1) get_prop_Some_obj by blast
  have s: "length_is_zero (map_of (filter (\<lambda>kv. fst kv \<noteq> ''roomId'') kvs) ''strokes'')
             = Inr True"
    using assms(1) unfolding d by (simp add: map_of_filter_other)
  show ?thesis
    using assms(2) unfolding on_message_envelope draw_event_def d
    by (simp add: s Let_def split: slot.splits)
qed

text \<open>
  C8. A draw whose \<open>strokes\<close> is the empty array changes nothing in the room table, so
  neither \<open>drawings\<close> nor \<open>history\<close> nor \<open>redoStack\<close> of any room, and sends nothing,
  whatever room the payload names.
\<close>

theorem empty_strokes_draw_ignored:
  assumes "get_prop d ''strokes'' = Some (JArr [])"
  shows "fst (on_message eng ready conn (envelope ''draw'' (Some d)) rooms) = rooms
         \<and> sends_of (on_message eng ready conn (envelope ''draw'' (Some d)) rooms) = []"
proof -
  obtain kvs where d: "d = JObj kvs" using assms get_prop_Some_obj by blast
  have s: "length_is_zero (map_of (filter (\<lambda>kv. fst kv \<noteq> ''roomId'') kvs) ''strokes'')
             = Inr True"
    using assms unfolding d by (simp add: map_of_filter_other)
  show ?thesis
    unfolding on_message_envelope draw_event_def d sends_of_def
    by (simp add: s Let_def split: slot.splits sum.splits)
qed

text \<open>
  In the room of the session, once with the key of the room and once with a key that
  cannot be converted.
\<close>

theorem empty_strokes_draw_ignored_witness:
  "get_prop (draw_payload ''abc123'' (JArr [])) ''strokes'' = Some (JArr [])
   \<and> fst (on_message small_stack all_open alice
            (envelope ''draw'' (Some (draw_payload ''abc123'' (JArr [])))) lobby) = lobby
   \<and> sends_of (on_message small_stack all_open alice
            (envelope ''draw'' (Some (draw_payload ''abc123'' (JArr [])))) lobby) = []
   \<and> get_prop (JObj [(''roomId'', odd_key), (''strokes'', JArr [])]) ''strokes''
       = Some (JArr [])
   \<and> fst (on_message small_stack all_open alice
            (envelope ''draw'' (Some (JObj [(''roomId'', odd_key), (''strokes'', JArr [])])))
            lobby) = lobby
   \<and> sends_of (on_message small_stack all_open alice
            (envelope ''draw'' (Some (JObj [(''roomId'', odd_key), (''strokes'', JArr [])])))
            lobby) = []"
proof -
  have h: "get_prop (draw_payload ''abc123'' (JArr [])) ''strokes'' = Some (JArr [])"
    by (simp add: draw_payload_facts)
  have k: "get_prop (JObj [(''roomId'', odd_key), (''strokes'', JArr [])]) ''strokes''
       = Some (JArr [])"
    by simp
  show ?thesis
    using h k
      empty_strokes_draw_ignored[OF h, of small_stack all_open alice lobby]
      empty_strokes_draw_ignored[OF k, of small_stack all_open alice lobby]
    by blast
qed

section \<open>The history is never empty\<close>

lemma fst_send_to_room: "fst (send_to_room eng ready rooms key m excl) = rooms"
  by (simp add: send_to_room_def after_broadcast_def split: sum.splits)

lemma history_ok_join:
  "history_ok rooms key \<Longrightarrow> history_ok (fst (join_room_event eng ready conn d rooms)) key"
  by (auto simp: history_ok_def join_room_event_def rooms_get_def fst_send_to_room Let_def
      split: option.splits if_splits sum.splits)

lemma history_ok_draw:
  "history_ok rooms key \<Longrightarrow> history_ok (fst (draw_event eng ready conn d rooms)) key"
  by (auto simp: history_ok_def draw_event_def rooms_get_def fst_send_to_room Let_def
      split: option.splits if_splits sum.splits bool.splits slot.splits)

lemma history_ok_undo:
  "history_ok rooms key \<Longrightarrow> history_ok (fst (undo_event eng ready conn rooms)) key"
  using butlast_nonempty
  by (auto simp: history_ok_def undo_event_def rooms_get_def fst_send_to_room js_pop_def
      Let_def Suc_le_eq split: option.splits if_splits)

lemma history_ok_redo:
  "history_ok rooms key \<Longrightarrow> history_ok (fst (redo_event eng ready conn rooms)) key"
  by (auto simp: history_ok_def redo_event_def rooms_get_def fst_send_to_room js_pop_def
      Let_def split: option.splits if_splits)

lemma history_ok_clear:
  "history_ok rooms key \<Longrightarrow> history_ok (fst (clear_event eng ready conn rooms)) key"
  by (auto simp: history_ok_def clear_event_def rooms_get_def fst_send_to_room Let_def
      split: option.splits if_splits)

lemma history_ok_message:
  "history_ok rooms key \<Longrightarrow> history_ok (fst (on_message eng ready conn parsed rooms)) key"
  unfolding on_message_def
  by (simp add: history_ok_join history_ok_draw history_ok_undo history_ok_redo
      history_ok_clear Let_def split: option.splits sum.splits)

lemma history_ok_check:
  "history_ok rooms key \<Longrightarrow> history_ok (fst (checkAndDeleteRoom now k rooms)) key"
  by (auto simp: history_ok_def checkAndDeleteRoom_def rooms_get_def Let_def
      split: option.splits if_splits)

lemma history_ok_close:
  assumes "history_ok rooms key"
  shows "history_ok (fst (on_close now conn rooms)) key"
proof (cases "rooms (roomId conn)")
  case None
  then show ?thesis
    using assms by (auto simp: on_close_def rooms_get_def history_ok_check)
next
  case (Some r)
  let ?rooms1 =
    "rooms(roomId conn \<mapsto> r\<lparr>users := filter (\<lambda>client. client \<noteq> ws conn) (users r)\<rparr>)"
  have "history_ok ?rooms1 key"
    using assms Some by (auto simp: history_ok_def split: option.splits)
  then show ?thesis
    using Some by (simp add: on_close_def rooms_get_def history_ok_check)
qed

lemma history_ok_create:
  "history_ok rooms key \<Longrightarrow> history_ok (fst (create_room random36 now rooms)) key"
  by (simp add: history_ok_def create_room_def Let_def)

lemma history_ok_step: "history_ok rooms key \<Longrightarrow> history_ok (step eng rooms req) key"
  by (cases req) (simp_all add: history_ok_create history_ok_message history_ok_close)

lemma history_ok_run: "history_ok rooms key \<Longrightarrow> history_ok (run eng rooms reqs) key"
  unfolding run_def by (induction reqs arbitrary: rooms) (simp_all add: history_ok_step)

lemma history_ok_fresh:
  "history_ok (fst (create_room random36 now rooms)) (snd (create_room random36 now rooms))"
  by (simp add: history_ok_def create_room_def Let_def)

text \<open>
  C5. Take a room just created, in any table, and let any requests follow: frames of any
  content on any connections (draw, undo, redo and clear among them), further creations,
  closings. Whenever the room is there afterwards, its history has at least one entry.
  A run may be cut at any point, so this holds after every step.
\<close>

theorem history_never_empty:
  assumes "create_room random36 now rooms = (rooms0, key)"
    and "run eng rooms0 reqs key = Some r"
  shows "1 \<le> length (history r)"
proof -
  have "history_ok rooms0 key"
    using history_ok_fresh[of random36 now rooms] assms(1) by simp
  then have "history_ok (run eng rooms0 reqs) key" by (rule history_ok_run)
  then show ?thesis using assms(2) by (simp add: history_ok_def)
qed

theorem history_never_empty_witness:
  "create_room ''0.abc123xyz'' 1000 Map.empty = (fresh_rooms, ''abc123'')
   \<and> run small_stack fresh_rooms session_undo ''abc123'' = Some lobby_room
   \<and> 1 \<le> length (history lobby_room)"
proof -
  have h1: "create_room ''0.abc123xyz'' 1000 Map.empty = (fresh_rooms, ''abc123'')"
    by (simp add: fresh_rooms_def create_room_def generateRoomId_def Let_def)
  have h2: "run small_stack fresh_rooms session_undo ''abc123'' = Some lobby_room"
    using lobby_eval by (simp add: lobby_def)
  show ?thesis using h1 h2 history_never_empty[OF h1 h2] by simp
qed

section \<open>Who receives a broadcast\<close>



section \<open>The reaper check and the close handler\<close>

text \<open>
  C7. The check deletes the room under the key exactly when a room is there, it has no
  members, and at least five minutes (300000 ms) have passed since \<open>startTime\<close>. No
  other key is touched, and a room with a member is left as it is whatever the time.
\<close>

theorem reaper_removes_iff:
  "((rooms key \<noteq> None \<and> fst (checkAndDeleteRoom now key rooms) key = None)
      = (\<exists>r. rooms key = Some r \<and> users r = [] \<and> 5 * 60 * 1000 \<le> now - startTime r))
   \<and> (\<forall>k. k \<noteq> key \<longrightarrow> fst (checkAndDeleteRoom now key rooms) k = rooms k)
   \<and> (\<forall>r. rooms key = Some r \<and> users r \<noteq> [] \<longrightarrow>
          fst (checkAndDeleteRoom now key rooms) = rooms)"
  by (auto simp: checkAndDeleteRoom_def rooms_get_def Let_def split: option.splits if_splits)

text \<open>
  The room of the session has members and stays, a day after its creation. The empty
  room created at 1000 is deleted by a check at 301000 and kept by one at 300999.
\<close>

theorem reaper_removes_iff_witness:
  "lobby ''abc123'' = Some lobby_room \<and> users lobby_room \<noteq> []
   \<and> fst (checkAndDeleteRoom 86401000 ''abc123'' lobby) = lobby
   \<and> fresh_rooms ''abc123'' \<noteq> None
   \<and> fst (checkAndDeleteRoom 301000 ''abc123'' fresh_rooms) ''abc123'' = None
   \<and> fst (checkAndDeleteRoom 300999 ''abc123'' fresh_rooms) ''abc123'' \<noteq> None"
proof -
  have l: "lobby ''abc123'' = Some lobby_room" by (simp add: lobby_eval)
  have u: "users lobby_room \<noteq> []" by (simp add: lobby_room_def)
  have kept: "fst (checkAndDeleteRoom 86401000 ''abc123'' lobby) = lobby"
    using reaper_removes_iff[of lobby "''abc123''" 86401000] l u by blast
  have gone: "fst (checkAndDeleteRoom 301000 ''abc123'' fresh_rooms) ''abc123'' = None"
    using reaper_removes_iff[of fresh_rooms "''abc123''" 301000]
    by (simp add: fresh_rooms_eval)
  have early: "fst (checkAndDeleteRoom 300999 ''abc123'' fresh_rooms) ''abc123'' \<noteq> None"
    using reaper_removes_iff[of fresh_rooms "''abc123''" 300999]
    by (simp add: fresh_rooms_eval)
  show ?thesis using l u kept gone early by (simp add: fresh_rooms_eval)
qed

text \<open>
  C4, as the source has it. When a connection closes and a room exists under the
  \<^verbatim>\<open>room\<close> parameter it connected with, every occurrence of its socket is taken out
  of that room's members, and the reaper check then runs on that room. Rooms under other
  keys, joined or not, are left as they are.
\<close>

theorem close_leaves_query_room:
  assumes "rooms (roomId conn) = Some r"
  shows "on_close now conn rooms =
           checkAndDeleteRoom now (roomId conn)
             (rooms(roomId conn \<mapsto> r\<lparr>users := removeAll (ws conn) (users r)\<rparr>))
         \<and> (\<forall>r'. fst (on_close now conn rooms) (roomId conn) = Some r' \<longrightarrow>
               ws conn \<notin> set (users r'))
         \<and> (\<forall>k. k \<noteq> roomId conn \<longrightarrow> fst (on_close now conn rooms) k = rooms k)"
proof -
  have c: "on_close now conn rooms =
           checkAndDeleteRoom now (roomId conn)
             (rooms(roomId conn \<mapsto> r\<lparr>users := removeAll (ws conn) (users r)\<rparr>))"
    using assms by (simp add: on_close_def rooms_get_own filter_is_removeAll)
  show ?thesis
    unfolding c
    by (auto simp: checkAndDeleteRoom_def rooms_get_def Let_def split: if_splits)
qed

theorem close_leaves_query_room_witness:
  "lobby (roomId alice) = Some lobby_room
   \<and> on_close 2000 alice lobby = ([''abc123'' \<mapsto> lobby_room\<lparr>users := [2, 3]\<rparr>], Done)"
proof -
  have h: "lobby (roomId alice) = Some lobby_room" by (simp add: lobby_eval alice_def)
  have "on_close 2000 alice lobby =
          checkAndDeleteRoom 2000 (roomId alice)
            (lobby(roomId alice \<mapsto> lobby_room\<lparr>users := removeAll (ws alice) (users lobby_room)\<rparr>))"
    using close_leaves_query_room[where rooms = lobby and conn = alice and r = lobby_room
        and now = 2000, OF h] by blast
  then show ?thesis
    using h by (simp add: lobby_eval alice_def lobby_room_def checkAndDeleteRoom_def rooms_get_def)
qed

text \<open>
  C4 as claimed says that the socket leaves the room it last joined. A connection
  made with \<^verbatim>\<open>?room=abc123\<close> joins room \<^verbatim>\<open>xyz789\<close> by a join-room frame and then
  closes: its socket is still a member of \<^verbatim>\<open>xyz789\<close>.
\<close>

theorem close_other_room_counterexample:
  "map_option users (two_rooms ''xyz789'') = Some []
   \<and> map_option users (joined_other ''xyz789'') = Some [ws alice]
   \<and> map_option users (fst (on_close 2000 alice joined_other) ''xyz789'') = Some [ws alice]"
  by (simp add: two_rooms_eval joined_other_eval alice_def on_close_def rooms_get_def
      checkAndDeleteRoom_def)

section \<open>Frames that make the handler throw\<close>

lemma threw_send:
  assumes "rooms key = Some r"
  shows "outcome_of (send_to_room eng ready rooms key m excl)
           = (if serialises eng m then Done else Threw RangeError)"
    and "\<not> serialises eng m \<Longrightarrow> sends_of (send_to_room eng ready rooms key m excl) = []"
  using assms by (simp_all add: send_to_room_own outcome_of_def sends_of_def)










section \<open>Creating a room\<close>

text \<open>
  C3. Claimed: the identifier returned by a creation is not in use, and a creation
  never overwrites a room. The source stores the new room under whatever
  \<^verbatim>\<open>generateRoomId\<close> returns, without looking the key up first. When the random text
  gives \<^verbatim>\<open>abc123\<close> again, the room under that key, with a stroke on its canvas, is
  replaced by an empty one, and the identifier in use is returned.
\<close>

theorem create_room_overwrites_live_room:
  "map_option drawings (drawn_once ''abc123'') = Some [stroke ''p1'']
   \<and> snd (create_room ''0.abc123xyz'' 2000 drawn_once) = ''abc123''
   \<and> fst (create_room ''0.abc123xyz'' 2000 drawn_once) ''abc123''
       = Some \<lparr>drawings = [], history = [[]], redoStack = [], users = [], startTime = 2000\<rparr>"
  by (simp add: Let_def drawn_once_eval create_room_def generateRoomId_def)

text \<open>
  An identifier that \<^verbatim>\<open>generateRoomId\<close> returns has at most six characters, so it is
  never one of the names inherited from \<^verbatim>\<open>Object.prototype\<close>.
\<close>

lemma generateRoomId_not_inherited: "generateRoomId random36 \<notin> set object_prototype_keys"
proof
  assume a: "generateRoomId random36 \<in> set object_prototype_keys"
  have "length (generateRoomId random36) \<le> 6" by (simp add: generateRoomId_def)
  moreover have "\<forall>k \<in> set object_prototype_keys. 6 < length k"
    by (simp add: object_prototype_keys_def)
  ultimately show False using a by fastforce
qed

end
